theory Spec2Isabelle
  imports Complex_Main
begin

section \<open>Strings as the code uses them\<close>

text \<open>
  Python strings are modelled as \<^typ>\<open>string\<close>. The case conversions \<open>str.lower\<close> and
  \<open>str.upper\<close> and the whitespace test of \<open>str.strip\<close> are modelled on the ASCII range;
  every literal the code compares against is ASCII.
\<close>

definition lower_char :: "char \<Rightarrow> char" where
  "lower_char c =
     (let n = (of_char c :: nat) in if 65 \<le> n \<and> n \<le> 90 then char_of (n + 32) else c)"

definition upper_char :: "char \<Rightarrow> char" where
  "upper_char c =
     (let n = (of_char c :: nat) in if 97 \<le> n \<and> n \<le> 122 then char_of (n - 32) else c)"

definition lower :: "string \<Rightarrow> string" where
  "lower s = map lower_char s"

definition upper :: "string \<Rightarrow> string" where
  "upper s = map upper_char s"





section \<open>The world outside \<open>create_emotional_tts\<close>\<close>

text \<open>
  Exceptions are values. The code distinguishes \<open>TypeError\<close> and \<open>FileNotFoundError\<close>
  from the rest; all three are subclasses of \<open>Exception\<close>.
\<close>

datatype exn = TypeError | FileNotFoundError | OtherException string

type_synonym samples = "real list"

text \<open>
  The array \<open>librosa.load\<close> returns: one-dimensional, or two-dimensional given by its
  rows (\<open>audio[i, :]\<close> is row \<open>i\<close>). Floating-point numbers, the samples and the
  speed, are modelled as real numbers: there is no rounding, no infinity and no NaN,
  and \<open>float(global_speed)\<close> is the number itself.
\<close>

datatype ndarray = Array1 "real list" | Array2 "real list list"

record tts_model =
  speakers :: "string list option"

text \<open>Every call that leaves the function, with its arguments, in the order made.\<close>

datatype ext_call =
    TtsToFile string "string option" string
  | TtsToFilePlain string string
  | LibrosaLoad string
  | PitchShift samples int int
  | TimeStretch samples real
  | SfWrite string samples int bool
  | OsRemove string

record world =
  files :: "string set"
  calls :: "ext_call list"
  stdout :: "string list"

text \<open>
  The external collaborators (the TTS engine, librosa, soundfile, the operating system)
  are parameters. \<open>float32\<close> is the rounding of \<open>np.asarray(audio, dtype=np.float32)\<close>;
  the flag of \<open>sf_write\<close> says whether \<open>subtype='PCM_16'\<close> was passed.
\<close>

record env =
  new_temp :: string
  TTS_init :: "string \<Rightarrow> exn + tts_model"
  tts_to_file :: "tts_model \<Rightarrow> string \<Rightarrow> string option \<Rightarrow> string \<Rightarrow> exn + unit"
  tts_to_file_plain :: "tts_model \<Rightarrow> string \<Rightarrow> string \<Rightarrow> exn + unit"
  librosa_load :: "string \<Rightarrow> exn + (ndarray \<times> int)"
  pitch_shift :: "samples \<Rightarrow> int \<Rightarrow> int \<Rightarrow> exn + samples"
  time_stretch :: "samples \<Rightarrow> real \<Rightarrow> exn + samples"
  float32 :: "real \<Rightarrow> real"
  sf_write :: "string \<Rightarrow> samples \<Rightarrow> int \<Rightarrow> bool \<Rightarrow> exn + unit"
  os_remove :: "string \<Rightarrow> exn + unit"

section \<open>The effect chain of \<open>create_emotional_tts\<close>\<close>

definition call_pitch_shift ::
  "env \<Rightarrow> samples \<Rightarrow> int \<Rightarrow> int \<Rightarrow> world \<Rightarrow> (exn + samples) \<times> world" where
  "call_pitch_shift E audio sr n_steps w =
     (pitch_shift E audio sr n_steps, w\<lparr>calls := calls w @ [PitchShift audio sr n_steps]\<rparr>)"

definition call_time_stretch ::
  "env \<Rightarrow> samples \<Rightarrow> real \<Rightarrow> world \<Rightarrow> (exn + samples) \<times> world" where
  "call_time_stretch E audio rate w =
     (time_stretch E audio rate, w\<lparr>calls := calls w @ [TimeStretch audio rate]\<rparr>)"

text \<open>
  The try block of the happy, angry, calm and excited branches:
  \<^verbatim>\<open>
  try:
      rate = 1.2 * float(global_speed)
      if len(audio) > sr and abs(rate - 1.0) > 0.01 and rate > 0:
          audio = librosa.effects.time_stretch(audio, rate=rate)
  except Exception:
      pass
  \<close>
\<close>

definition try_time_stretch ::
  "env \<Rightarrow> real \<Rightarrow> real \<Rightarrow> int \<Rightarrow> samples \<Rightarrow> world \<Rightarrow> samples \<times> world" where
  "try_time_stretch E mult global_speed sr audio w =
     (let rate = mult * global_speed in
      if int (length audio) > sr \<and> \<bar>rate - 1.0\<bar> > 0.01 \<and> rate > 0 then
        (case call_time_stretch E audio rate w of
           (Inl _, w1) \<Rightarrow> (audio, w1)
         | (Inr a, w1) \<Rightarrow> (a, w1))
      else (audio, w))"

text \<open>The sad branch tests the length outside its try block and the rate inside.\<close>

definition sad_time_stretch ::
  "env \<Rightarrow> real \<Rightarrow> int \<Rightarrow> samples \<Rightarrow> world \<Rightarrow> samples \<times> world" where
  "sad_time_stretch E global_speed sr audio w =
     (if int (length audio) > sr then
        (let rate = 0.7 * global_speed in
         if \<bar>rate - 1.0\<bar> > 0.01 \<and> rate > 0 then
           (case call_time_stretch E audio rate w of
              (Inl _, w1) \<Rightarrow> (audio, w1)
            | (Inr a, w1) \<Rightarrow> (a, w1))
         else (audio, w))
      else (audio, w))"

definition print :: "string \<Rightarrow> world \<Rightarrow> world" where
  "print msg w = w\<lparr>stdout := stdout w @ [msg]\<rparr>"

definition sad_branch ::
  "env \<Rightarrow> real \<Rightarrow> int \<Rightarrow> samples \<Rightarrow> world \<Rightarrow> (exn + samples) \<times> world" where
  "sad_branch E global_speed sr audio w =
     (let (r, w1) = call_pitch_shift E audio sr (- 3) w;
          audio1 = (case r of Inl _ \<Rightarrow> audio | Inr a \<Rightarrow> a);
          (audio2, w2) = sad_time_stretch E global_speed sr audio1 w1
      in (Inr (map (\<lambda>x. x * 0.8) audio2),
          print ''Applied sad emotion: lower pitch, slower speed, quieter volume'' w2))"

text \<open>
  The happy, angry, calm and excited branches differ in their constants only: the
  pitch shift is outside any try block, the stretch inside one, the gain after both.
\<close>

definition shift_stretch_gain ::
  "env \<Rightarrow> int \<Rightarrow> real \<Rightarrow> real \<Rightarrow> string \<Rightarrow> real \<Rightarrow> int \<Rightarrow> samples \<Rightarrow> world
     \<Rightarrow> (exn + samples) \<times> world" where
  "shift_stretch_gain E n_steps mult gain msg global_speed sr audio w =
     (case call_pitch_shift E audio sr n_steps w of
        (Inl e, w1) \<Rightarrow> (Inl e, w1)
      | (Inr audio1, w1) \<Rightarrow>
          (let (audio2, w2) = try_time_stretch E mult global_speed sr audio1 w1
           in (Inr (map (\<lambda>x. x * gain) audio2), print msg w2)))"

definition whisper_branch ::
  "env \<Rightarrow> int \<Rightarrow> samples \<Rightarrow> world \<Rightarrow> (exn + samples) \<times> world" where
  "whisper_branch E sr audio w =
     (case call_pitch_shift E audio sr (- 1) w of
        (Inl e, w1) \<Rightarrow> (Inl e, w1)
      | (Inr audio1, w1) \<Rightarrow>
          (Inr (map (\<lambda>x. x * 0.5) audio1),
           print ''Applied whisper emotion: lower pitch, much quieter volume'' w1))"

definition apply_emotion ::
  "env \<Rightarrow> string \<Rightarrow> real \<Rightarrow> int \<Rightarrow> samples \<Rightarrow> world \<Rightarrow> (exn + samples) \<times> world" where
  "apply_emotion E emotion global_speed sr audio w =
     (if lower emotion = ''sad'' then sad_branch E global_speed sr audio w
      else if lower emotion = ''happy'' then
        shift_stretch_gain E 2 1.2 1.1
          ''Applied happy emotion: higher pitch, faster speed, brighter tone''
          global_speed sr audio w
      else if lower emotion = ''angry'' then
        shift_stretch_gain E (- 2) 1.1 1.2
          ''Applied angry emotion: lower pitch, faster speed, louder volume''
          global_speed sr audio w
      else if lower emotion = ''calm'' then
        shift_stretch_gain E (- 1) 0.8 0.9
          ''Applied calm emotion: lower pitch, slower speed, softer volume''
          global_speed sr audio w
      else if lower emotion = ''excited'' then
        shift_stretch_gain E 3 1.3 1.15
          ''Applied excited emotion: higher pitch, faster speed, louder volume''
          global_speed sr audio w
      else if lower emotion = ''whisper'' then whisper_branch E sr audio w
      else (Inr audio, print ''Applied neutral emotion: no modifications'' w))"

section \<open>\<open>create_emotional_tts\<close>: synthesis, loading, clipping, writing, cleanup\<close>

text \<open>
  \<^verbatim>\<open>
  if speaker is None and getattr(tts, "speakers", None):
      try: speaker = tts.speakers[0]
      except Exception: speaker = None
  \<close>
\<close>

definition choose_speaker :: "tts_model \<Rightarrow> string option \<Rightarrow> string option" where
  "choose_speaker tts speaker =
     (case speaker of
        Some s \<Rightarrow> Some s
      | None \<Rightarrow> (case speakers tts of Some (s # _) \<Rightarrow> Some s | _ \<Rightarrow> None))"

definition load_audio :: "env \<Rightarrow> string \<Rightarrow> world \<Rightarrow> (exn + ndarray \<times> int) \<times> world" where
  "load_audio E temp_path w =
     (librosa_load E temp_path, w\<lparr>calls := calls w @ [LibrosaLoad temp_path]\<rparr>)"

text \<open>
  The body of the first try block: \<open>tts_to_file\<close> with the speaker, once more without
  it on a \<open>TypeError\<close>, then \<open>librosa.load\<close>.
\<close>

definition generate_and_load ::
  "env \<Rightarrow> tts_model \<Rightarrow> string \<Rightarrow> string option \<Rightarrow> string \<Rightarrow> world
     \<Rightarrow> (exn + ndarray \<times> int) \<times> world" where
  "generate_and_load E tts text speaker temp_path w =
     (let w1 = w\<lparr>calls := calls w @ [TtsToFile text speaker temp_path]\<rparr> in
      case tts_to_file E tts text speaker temp_path of
        Inl TypeError \<Rightarrow>
          (let w2 = w1\<lparr>calls := calls w1 @ [TtsToFilePlain text temp_path]\<rparr> in
           case tts_to_file_plain E tts text temp_path of
             Inl e \<Rightarrow> (Inl e, w2)
           | Inr _ \<Rightarrow> load_audio E temp_path w2)
      | Inl e \<Rightarrow> (Inl e, w1)
      | Inr _ \<Rightarrow> load_audio E temp_path w1)"

text \<open>
  \<^verbatim>\<open>
  try:
      if os.path.exists(temp_path):
          os.remove(temp_path)
  except Exception:
      pass
  \<close>
\<close>

definition cleanup :: "env \<Rightarrow> string \<Rightarrow> world \<Rightarrow> world" where
  "cleanup E temp_path w =
     (if temp_path \<in> files w then
        (let w1 = w\<lparr>calls := calls w @ [OsRemove temp_path]\<rparr> in
         case os_remove E temp_path of
           Inl _ \<Rightarrow> w1
         | Inr _ \<Rightarrow> w1\<lparr>files := files w1 - {temp_path}\<rparr>)
      else w)"

text \<open>\<open>np.mean(audio, axis=1)\<close>: the mean of each row.\<close>

definition np_mean_axis1 :: "real list list \<Rightarrow> real list" where
  "np_mean_axis1 rows = map (\<lambda>r. sum_list r / real (length r)) rows"

definition to_mono :: "ndarray \<Rightarrow> samples" where
  "to_mono audio = (case audio of Array1 xs \<Rightarrow> xs | Array2 rows \<Rightarrow> np_mean_axis1 rows)"

definition np_clip :: "samples \<Rightarrow> real \<Rightarrow> real \<Rightarrow> samples" where
  "np_clip audio lo hi = map (\<lambda>x. min (max x lo) hi) audio"

definition call_sf_write ::
  "env \<Rightarrow> string \<Rightarrow> samples \<Rightarrow> int \<Rightarrow> bool \<Rightarrow> world \<Rightarrow> (exn + unit) \<times> world" where
  "call_sf_write E output_file audio sr subtype w =
     (let w1 = w\<lparr>calls := calls w @ [SfWrite output_file audio sr subtype]\<rparr> in
      case sf_write E output_file audio sr subtype of
        Inl e \<Rightarrow> (Inl e, w1)
      | Inr _ \<Rightarrow> (Inr (), w1\<lparr>files := insert output_file (files w1)\<rparr>))"

text \<open>
  \<^verbatim>\<open>
  try:
      sf.write(output_file, audio, sr, subtype='PCM_16')
  except TypeError:
      sf.write(output_file, audio, sr)
  \<close>
\<close>

definition write_output ::
  "env \<Rightarrow> string \<Rightarrow> samples \<Rightarrow> int \<Rightarrow> world \<Rightarrow> (exn + unit) \<times> world" where
  "write_output E output_file audio sr w =
     (case call_sf_write E output_file audio sr True w of
        (Inl TypeError, w1) \<Rightarrow> call_sf_write E output_file audio sr False w1
      | (Inl e, w1) \<Rightarrow> (Inl e, w1)
      | (Inr _, w1) \<Rightarrow> (Inr (), w1))"

text \<open>
  The whole function. The argument \<open>speaker_gender\<close> is only logged and is left out, as
  are the log lines themselves. The temporary file exists from \<open>NamedTemporaryFile\<close> on.
\<close>

definition create_emotional_tts ::
  "env \<Rightarrow> string \<Rightarrow> string \<Rightarrow> string \<Rightarrow> string option \<Rightarrow> tts_model option \<Rightarrow> real \<Rightarrow> world
     \<Rightarrow> (exn + string) \<times> world" where
  "create_emotional_tts E text emotion output_file speaker tts_instance global_speed w =
     (case (case tts_instance of
              Some t \<Rightarrow> Inr t
            | None \<Rightarrow> TTS_init E ''tts_models/en/vctk/vits'') of
        Inl e \<Rightarrow> (Inl e, w)
      | Inr tts \<Rightarrow>
          (let speaker1 = choose_speaker tts speaker;
               temp_path = new_temp E;
               w1 = w\<lparr>files := insert temp_path (files w)\<rparr>
           in case generate_and_load E tts text speaker1 temp_path w1 of
                (Inl e, w2) \<Rightarrow> (Inl e, cleanup E temp_path w2)
              | (Inr (audio, sr), w2) \<Rightarrow>
                  (case apply_emotion E emotion global_speed sr (to_mono audio) w2 of
                     (Inl e, w3) \<Rightarrow> (Inl e, w3)
                   | (Inr audio1, w3) \<Rightarrow>
                       (let audio2 = np_clip (map (float32 E) audio1) (- 1.0) 1.0
                        in case write_output E output_file audio2 sr w3 of
                             (Inl e, w4) \<Rightarrow> (Inl e, w4)
                           | (Inr _, w4) \<Rightarrow> (Inr output_file, cleanup E temp_path w4)))))"

definition available_emotions :: "string list" where
  "available_emotions =
     [''sad'', ''happy'', ''angry'', ''calm'', ''excited'', ''whisper'', ''neutral'']"

section \<open>\<open>load_speaker_genders\<close>\<close>





section \<open>The form's worker: \<open>_generate_thread\<close>\<close>

text \<open>
  The keyword arguments of one call of \<open>create_emotional_tts\<close> from the form;
  \<open>speaker\<close>, \<open>tts_instance\<close> and \<open>speaker_gender\<close> are \<open>None\<close> in every call and left
  out. The four effect arguments are \<open>None\<close> where the call does not pass them.
\<close>

record request =
  r_text :: string
  r_emotion :: string
  r_out :: string
  r_global_speed :: real
  r_model_name :: string
  r_child_mode :: bool
  r_pitch_shift :: real
  r_energy :: real
  r_tremolo_rate :: "real option"
  r_tremolo_depth :: "real option"
  r_reverb_amount :: "real option"
  r_brightness :: "real option"

record gui =
  button_enabled :: bool
  status :: "string list"
  dialogs :: "(string \<times> string) list"
  attempts :: "request list"

text \<open>
  The function the form imports from \<open>BTTS\<close> and \<open>traceback.format_exc\<close> are
  parameters.
\<close>

record genv =
  create :: "request \<Rightarrow> exn + string"
  format_exc :: "exn \<Rightarrow> string"

definition set_status :: "string \<Rightarrow> gui \<Rightarrow> gui" where
  "set_status text g = g\<lparr>status := status g @ [text]\<rparr>"

definition call_create :: "genv \<Rightarrow> request \<Rightarrow> gui \<Rightarrow> (exn + string) \<times> gui" where
  "call_create G r g = (create G r, g\<lparr>attempts := attempts g @ [r]\<rparr>)"

definition showerror :: "string \<Rightarrow> string \<Rightarrow> gui \<Rightarrow> gui" where
  "showerror title msg g = g\<lparr>dialogs := dialogs g @ [(title, msg)]\<rparr>"

definition chosen_model :: "string option \<Rightarrow> bool \<Rightarrow> string" where
  "chosen_model model_name child_mode =
     (case model_name of
        Some m \<Rightarrow>
          (if m \<noteq> [] then m
           else if child_mode then ''C3Imaging/child_tts_fastpitch''
           else ''tts_models/en/vctk/vits'')
      | None \<Rightarrow>
          (if child_mode then ''C3Imaging/child_tts_fastpitch''
           else ''tts_models/en/vctk/vits''))"

definition generate_thread ::
  "genv \<Rightarrow> string \<Rightarrow> string \<Rightarrow> string \<Rightarrow> string option \<Rightarrow> bool \<Rightarrow> real \<Rightarrow> real \<Rightarrow> real
     \<Rightarrow> real \<Rightarrow> real \<Rightarrow> real \<Rightarrow> real \<Rightarrow> gui \<Rightarrow> gui" where
  "generate_thread G text emotion out model_name child_mode global_speed pitch_shift_arg energy
       trem_rate trem_depth reverb_amt brightness g =
     (let g1 = g\<lparr>button_enabled := False\<rparr>;
          g2 = set_status ''Starting generation...'' g1;
          chosen = chosen_model model_name child_mode;
          g3 = set_status (''Initializing model: '' @ chosen) g2;
          g_end =
            (case call_create G
                    \<lparr>r_text = text, r_emotion = emotion, r_out = out,
                     r_global_speed = global_speed, r_model_name = chosen,
                     r_child_mode = child_mode, r_pitch_shift = pitch_shift_arg,
                     r_energy = energy, r_tremolo_rate = Some trem_rate,
                     r_tremolo_depth = Some trem_depth, r_reverb_amount = Some reverb_amt,
                     r_brightness = Some brightness\<rparr> g3 of
               (Inr _, g4) \<Rightarrow> set_status (''Done. Saved to '' @ out) g4
             | (Inl e, g4) \<Rightarrow>
                 (let tb = format_exc G e;
                      g5 = set_status
                             ''Generation failed: falling back to vctk approximation...'' g4
                  in case call_create G
                            \<lparr>r_text = text, r_emotion = emotion, r_out = out,
                             r_global_speed = global_speed,
                             r_model_name = ''tts_models/en/vctk/vits'',
                             r_child_mode = True, r_pitch_shift = pitch_shift_arg,
                             r_energy = energy, r_tremolo_rate = None,
                             r_tremolo_depth = None, r_reverb_amount = None,
                             r_brightness = None\<rparr> g5 of
                       (Inr _, g6) \<Rightarrow> set_status (''Done with fallback. Saved to '' @ out) g6
                     | (Inl e2, g6) \<Rightarrow>
                         showerror ''Generation failed''
                           (''Errors:'' @ [CHR 0x0A] @ tb @ [CHR 0x0A] @ format_exc G e2)
                           (set_status ''All generation attempts failed'' g6)))
      in g_end\<lparr>button_enabled := True\<rparr>)"

section \<open>What the specification says of the effect chain\<close>

text \<open>
  The table of the specification's section 4.1, in its words: per label a pitch delta in
  semitones, a rate multiplier (none for whisper) and a gain; neutral and every other
  label are the identity.
\<close>

datatype profile = Identity | Effects int "real option" real

definition emotion_profile :: "string \<Rightarrow> profile" where
  "emotion_profile label =
     (if label = ''sad'' then Effects (- 3) (Some 0.7) 0.8
      else if label = ''happy'' then Effects 2 (Some 1.2) 1.1
      else if label = ''angry'' then Effects (- 2) (Some 1.1) 1.2
      else if label = ''calm'' then Effects (- 1) (Some 0.8) 0.9
      else if label = ''excited'' then Effects 3 (Some 1.3) 1.15
      else if label = ''whisper'' then Effects (- 1) None 0.5
      else Identity)"

text \<open>The condition under which the code calls the stretch routine.\<close>

definition stretch_applies :: "int \<Rightarrow> real \<Rightarrow> samples \<Rightarrow> bool" where
  "stretch_applies sr rate audio \<longleftrightarrow> int (length audio) > sr \<and> \<bar>rate - 1\<bar> > 0.01 \<and> rate > 0"

text \<open>
  The conditional stretch stage on the buffer the pitch stage returned: the buffer it
  hands on, and the calls it makes. A stretch that raises leaves the buffer as it was.
\<close>

definition stretch_stage ::
  "env \<Rightarrow> real option \<Rightarrow> real \<Rightarrow> int \<Rightarrow> samples \<Rightarrow> samples \<times> ext_call list" where
  "stretch_stage E m global_speed sr audio =
     (case m of
        None \<Rightarrow> (audio, [])
      | Some k \<Rightarrow>
          (if stretch_applies sr (k * global_speed) audio then
             ((case time_stretch E audio (k * global_speed) of Inl _ \<Rightarrow> audio | Inr s \<Rightarrow> s),
              [TimeStretch audio (k * global_speed)])
           else (audio, [])))"

fun is_time_stretch :: "ext_call \<Rightarrow> bool" where
  "is_time_stretch (TimeStretch _ _) = True"
| "is_time_stretch _ = False"

text \<open>The calls a run adds to those made before it.\<close>

definition new_calls :: "world \<Rightarrow> world \<Rightarrow> ext_call list" where
  "new_calls w w' = drop (length (calls w)) (calls w')"

section \<open>Concrete collaborators\<close>

text \<open>
  A run where every collaborator succeeds: three samples at a sample rate of 2, a pitch
  shift that returns its input, a stretch that appends one sample.
\<close>

definition env_ok :: env where
  "env_ok =
     \<lparr>new_temp = ''/tmp/tmp0.wav'',
      TTS_init = (\<lambda>_. Inr \<lparr>speakers = Some [''p225'']\<rparr>),
      tts_to_file = (\<lambda>_ _ _ _. Inr ()),
      tts_to_file_plain = (\<lambda>_ _ _. Inr ()),
      librosa_load = (\<lambda>_. Inr (Array1 [0.5, - 0.5, 2], 2)),
      pitch_shift = (\<lambda>a _ _. Inr a),
      time_stretch = (\<lambda>a _. Inr (a @ [0])),
      float32 = (\<lambda>x. x),
      sf_write = (\<lambda>_ _ _ _. Inr ()),
      os_remove = (\<lambda>_. Inr ())\<rparr>"

text \<open>The same with a pitch shift that raises, as librosa does on a buffer it rejects.\<close>

definition env_pitch_fails :: env where
  "env_pitch_fails = env_ok\<lparr>pitch_shift := (\<lambda>_ _ _. Inl (OtherException ''ParameterError''))\<rparr>"

text \<open>The same with a writer that raises, as soundfile does on a path it cannot open.\<close>

definition env_write_fails :: env where
  "env_write_fails = env_ok\<lparr>sf_write := (\<lambda>_ _ _ _. Inl (OtherException ''LibsndfileError''))\<rparr>"


definition world0 :: world where
  "world0 = \<lparr>files = {}, calls = [], stdout = []\<rparr>"

text \<open>A form whose every attempt fails, one whose fallback succeeds, and a fresh window.\<close>

definition render_exn :: "exn \<Rightarrow> string" where
  "render_exn e =
     (case e of
        TypeError \<Rightarrow> ''TypeError''
      | FileNotFoundError \<Rightarrow> ''FileNotFoundError''
      | OtherException m \<Rightarrow> m)"

definition genv_all_fail :: genv where
  "genv_all_fail =
     \<lparr>create = (\<lambda>r. Inl (OtherException (''cannot load '' @ r_model_name r))),
      format_exc = render_exn\<rparr>"

definition genv_primary_fails :: genv where
  "genv_primary_fails =
     \<lparr>create = (\<lambda>r. if r_model_name r = ''tts_models/en/vctk/vits'' then Inr (r_out r)
                     else Inl (OtherException (''cannot load '' @ r_model_name r))),
      format_exc = render_exn\<rparr>"

definition gui0 :: gui where
  "gui0 = \<lparr>button_enabled = True, status = [], dialogs = [], attempts = []\<rparr>"




section \<open>Case conversion and the effect chain\<close>




lemma try_time_stretch_stage:
  "try_time_stretch E k gs sr a w =
     (fst (stretch_stage E (Some k) gs sr a), w\<lparr>calls := calls w @ snd (stretch_stage E (Some k) gs sr a)\<rparr>)"
  by (simp add: try_time_stretch_def stretch_stage_def stretch_applies_def call_time_stretch_def
        Let_def split: sum.splits)

lemma sad_time_stretch_stage:
  "sad_time_stretch E gs sr a w =
     (fst (stretch_stage E (Some 0.7) gs sr a), w\<lparr>calls := calls w @ snd (stretch_stage E (Some 0.7) gs sr a)\<rparr>)"
  by (simp add: sad_time_stretch_def stretch_stage_def stretch_applies_def call_time_stretch_def
        Let_def split: sum.splits)

lemma shift_stretch_gain_ok:
  assumes "pitch_shift E a sr p = Inr a1"
  shows "shift_stretch_gain E p k g msg gs sr a w =
     (Inr (map (\<lambda>x. x * g) (fst (stretch_stage E (Some k) gs sr a1))),
      print msg (w\<lparr>calls := calls w @ PitchShift a sr p # snd (stretch_stage E (Some k) gs sr a1)\<rparr>))"
  using assms
  by (simp add: shift_stretch_gain_def call_pitch_shift_def try_time_stretch_stage print_def)

lemma sad_branch_ok:
  assumes "pitch_shift E a sr (- 3) = Inr a1"
  shows "sad_branch E gs sr a w =
     (Inr (map (\<lambda>x. x * 0.8) (fst (stretch_stage E (Some 0.7) gs sr a1))),
      print ''Applied sad emotion: lower pitch, slower speed, quieter volume''
        (w\<lparr>calls := calls w @ PitchShift a sr (- 3) # snd (stretch_stage E (Some 0.7) gs sr a1)\<rparr>))"
  using assms
  by (simp add: sad_branch_def call_pitch_shift_def sad_time_stretch_stage print_def)

lemma whisper_branch_ok:
  assumes "pitch_shift E a sr (- 1) = Inr a1"
  shows "whisper_branch E sr a w =
     (Inr (map (\<lambda>x. x * 0.5) (fst (stretch_stage E None gs sr a1))),
      print ''Applied whisper emotion: lower pitch, much quieter volume''
        (w\<lparr>calls := calls w @ PitchShift a sr (- 1) # snd (stretch_stage E None gs sr a1)\<rparr>))"
  using assms
  by (simp add: whisper_branch_def call_pitch_shift_def stretch_stage_def print_def)

lemma profile_cases:
  assumes "emotion_profile l = Effects p m g"
  shows "(l = ''sad'' \<and> p = - 3 \<and> m = Some 0.7 \<and> g = 0.8) \<or>
         (l = ''happy'' \<and> p = 2 \<and> m = Some 1.2 \<and> g = 1.1) \<or>
         (l = ''angry'' \<and> p = - 2 \<and> m = Some 1.1 \<and> g = 1.2) \<or>
         (l = ''calm'' \<and> p = - 1 \<and> m = Some 0.8 \<and> g = 0.9) \<or>
         (l = ''excited'' \<and> p = 3 \<and> m = Some 1.3 \<and> g = 1.15) \<or>
         (l = ''whisper'' \<and> p = - 1 \<and> m = None \<and> g = 0.5)"
  using assms by (simp add: emotion_profile_def split: if_splits)

lemma apply_emotion_effects:
  assumes "emotion_profile (lower L) = Effects p m g" and "pitch_shift E a sr p = Inr a1"
  shows "fst (apply_emotion E L gs sr a w) = Inr (map (\<lambda>x. x * g) (fst (stretch_stage E m gs sr a1)))"
    and "calls (snd (apply_emotion E L gs sr a w)) =
           calls w @ PitchShift a sr p # snd (stretch_stage E m gs sr a1)"
  using profile_cases[OF assms(1)] assms(2)
  by (auto simp: apply_emotion_def shift_stretch_gain_ok sad_branch_ok whisper_branch_ok[where gs=gs] print_def)


lemmas str_eval = lower_def lower_char_def upper_def upper_char_def char_of_eq_iff

lemmas chain_eval = apply_emotion_def sad_branch_def shift_stretch_gain_def whisper_branch_def
  call_pitch_shift_def call_time_stretch_def try_time_stretch_def sad_time_stretch_def print_def
  Let_def



text \<open>
  Claim C5. A label that, lower-cased, is none of the seven supported ones is treated
  as neutral: the whole function returns what it returns for \<open>neutral\<close>, and the effect
  chain hands the buffer on unchanged, calling neither pitch shift nor stretch and
  applying no gain.
\<close>

theorem unknown_label_is_neutral:
  assumes "lower L \<notin> set available_emotions"
  shows "create_emotional_tts E text L out spk tts gs w =
           create_emotional_tts E text ''neutral'' out spk tts gs w \<and>
         apply_emotion E L gs sr a w =
           (Inr a, print ''Applied neutral emotion: no modifications'' w) \<and>
         apply_emotion E ''neutral'' gs sr a w =
           (Inr a, print ''Applied neutral emotion: no modifications'' w)"
proof -
  have n: "lower ''neutral'' = ''neutral''"
    by (simp add: str_eval)
  have u: "apply_emotion E L gs' sr' a' w' =
             (Inr a', print ''Applied neutral emotion: no modifications'' w')" for gs' sr' a' w'
    using assms by (simp add: apply_emotion_def available_emotions_def)
  have v: "apply_emotion E ''neutral'' gs' sr' a' w' =
             (Inr a', print ''Applied neutral emotion: no modifications'' w')" for gs' sr' a' w'
    by (simp add: apply_emotion_def n)
  have eq: "apply_emotion E L = apply_emotion E ''neutral''"
    by (intro ext) (simp add: u v)
  have "create_emotional_tts E text L out spk tts gs w =
          create_emotional_tts E text ''neutral'' out spk tts gs w"
    unfolding create_emotional_tts_def eq by (rule refl)
  then show ?thesis
    by (simp add: u v)
qed

theorem unknown_label_is_neutral_witness:
  "lower ''Furious'' \<notin> set available_emotions \<and>
   create_emotional_tts env_ok ''hi'' ''Furious'' ''out.wav'' None None 1 world0 =
     create_emotional_tts env_ok ''hi'' ''neutral'' ''out.wav'' None None 1 world0 \<and>
   apply_emotion env_ok ''Furious'' 1 2 [0.5, - 0.5, 2] world0 =
     (Inr [0.5, - 0.5, 2], print ''Applied neutral emotion: no modifications'' world0)"
proof -
  have h: "lower ''Furious'' \<notin> set available_emotions"
    by (simp add: str_eval available_emotions_def)
  show ?thesis
    using h unknown_label_is_neutral [OF h, of env_ok "''hi''" "''out.wav''" None None 1 world0 2 "[0.5, - 0.5, 2]"]
    by simp
qed

section \<open>The stretch guard\<close>

lemma sad_time_stretch_nonpos:
  assumes "gs \<le> 0"
  shows "sad_time_stretch E gs sr b w = (b, w)"
proof -
  have "\<not> 0.7 * gs > 0"
    using assms by simp
  then show ?thesis
    by (simp add: sad_time_stretch_def Let_def)
qed

lemma try_time_stretch_nonpos:
  assumes "gs \<le> 0" and "0 < k"
  shows "try_time_stretch E k gs sr b w = (b, w)"
proof -
  have "k * gs \<le> 0"
    using assms by (simp add: mult_le_0_iff)
  then show ?thesis
    by (simp add: try_time_stretch_def Let_def)
qed

lemma apply_emotion_nonpos_calls:
  assumes "gs \<le> 0"
  shows "filter is_time_stretch (new_calls w (snd (apply_emotion E L gs sr a w))) = []"
  using assms
  by (simp add: apply_emotion_def sad_branch_def shift_stretch_gain_def whisper_branch_def
        call_pitch_shift_def print_def new_calls_def sad_time_stretch_nonpos
        try_time_stretch_nonpos split: sum.splits)

text \<open>
  Claim C10. With \<open>global_speed \<le> 0\<close> no branch calls the stretch routine: the calls the
  effect chain adds hold no stretch, the stretch stage of the sad branch and the one
  of the happy, angry, calm and excited branches (multipliers 1.2, 1.1, 0.8, 1.3) hand
  the buffer and the world on as they are, and what a branch returns is the pitch
  stage's buffer times the gain, so of the same length.
\<close>

theorem nonpositive_speed_never_stretches:
  assumes "gs \<le> 0"
  shows "filter is_time_stretch (new_calls w (snd (apply_emotion E L gs sr a w))) = [] \<and>
         sad_time_stretch E gs sr b w = (b, w) \<and>
         (\<forall>k \<in> {1.2, 1.1, 0.8, 1.3}. try_time_stretch E k gs sr b w = (b, w)) \<and>
         (case emotion_profile (lower L) of
            Identity \<Rightarrow> True
          | Effects p m g \<Rightarrow>
              (\<forall>a1. pitch_shift E a sr p = Inr a1 \<longrightarrow>
                 fst (apply_emotion E L gs sr a w) = Inr (map (\<lambda>x. x * g) a1)))"
proof -
  have s: "stretch_stage E m gs sr a1 = (a1, [])"
    if "emotion_profile (lower L) = Effects p m g" for p m g a1
  proof (cases m)
    case None
    then show ?thesis by (simp add: stretch_stage_def)
  next
    case (Some k)
    with profile_cases [OF that] have "0 < k" by auto
    with assms have "k * gs \<le> 0" by (simp add: mult_le_0_iff)
    with Some show ?thesis by (simp add: stretch_stage_def stretch_applies_def)
  qed
  have "case emotion_profile (lower L) of
            Identity \<Rightarrow> True
          | Effects p m g \<Rightarrow>
              (\<forall>a1. pitch_shift E a sr p = Inr a1 \<longrightarrow>
                 fst (apply_emotion E L gs sr a w) = Inr (map (\<lambda>x. x * g) a1))"
    by (cases "emotion_profile (lower L)") (simp_all add: apply_emotion_effects s)
  then show ?thesis
    using assms
    by (simp add: apply_emotion_nonpos_calls sad_time_stretch_nonpos try_time_stretch_nonpos)
qed

theorem nonpositive_speed_never_stretches_witness:
  "(- 1 :: real) \<le> 0 \<and>
   filter is_time_stretch
     (new_calls world0 (snd (apply_emotion env_ok ''excited'' (- 1) 2 [0.5, - 0.5, 2] world0))) = [] \<and>
   fst (apply_emotion env_ok ''excited'' (- 1) 2 [0.5, - 0.5, 2] world0) =
     Inr (map (\<lambda>x. x * 1.15) [0.5, - 0.5, 2])"
proof -
  have h: "(- 1 :: real) \<le> 0" by simp
  have l: "lower ''excited'' = ''excited''"
    by (simp add: str_eval)
  have p: "pitch_shift env_ok b r n = Inr b" for b r n
    by (simp add: env_ok_def)
  show ?thesis
    using nonpositive_speed_never_stretches [OF h, of world0 env_ok "''excited''" 2 "[0.5, - 0.5, 2]"]
    by (simp add: l p emotion_profile_def)
qed




section \<open>Failures inside a run\<close>

lemmas run_eval = create_emotional_tts_def choose_speaker_def generate_and_load_def
  load_audio_def to_mono_def np_clip_def write_output_def call_sf_write_def cleanup_def

text \<open>
  Claim C2. With a pitch shift that raises, the happy branch lets the exception leave
  \<open>create_emotional_tts\<close>, where the sad branch catches it and writes the output.
\<close>

theorem pitch_failure_propagates:
  "fst (create_emotional_tts env_pitch_fails ''hi'' ''happy'' ''out.wav'' None None 1 world0) =
     Inl (OtherException ''ParameterError'') \<and>
   fst (create_emotional_tts env_pitch_fails ''hi'' ''sad'' ''out.wav'' None None 1 world0) =
     Inr ''out.wav''"
proof -
  have l: "lower ''happy'' = ''happy''" "lower ''sad'' = ''sad''"
    by (simp_all add: str_eval)
  show ?thesis
    by (simp add: run_eval chain_eval l env_pitch_fails_def env_ok_def world0_def)
qed

text \<open>
  Claim C6. With a writer that raises, and with a pitch shift that raises in the happy
  branch, the exception leaves \<open>create_emotional_tts\<close> and the temporary file is
  still there.
\<close>

theorem temp_file_left_behind:
  "fst (create_emotional_tts env_write_fails ''hi'' ''neutral'' ''out.wav'' None None 1 world0) =
     Inl (OtherException ''LibsndfileError'') \<and>
   new_temp env_write_fails \<in>
     files (snd (create_emotional_tts env_write_fails ''hi'' ''neutral'' ''out.wav'' None None 1 world0)) \<and>
   new_temp env_pitch_fails \<in>
     files (snd (create_emotional_tts env_pitch_fails ''hi'' ''happy'' ''out.wav'' None None 1 world0))"
proof -
  have l: "lower ''happy'' = ''happy''" "lower ''neutral'' = ''neutral''"
    by (simp_all add: str_eval)
  show ?thesis
    by (simp add: run_eval chain_eval l env_write_fails_def env_pitch_fails_def env_ok_def world0_def)
qed

section \<open>The calls a run makes\<close>

lemma generate_and_load_calls:
  assumes "generate_and_load E tts text spk tp w = (r, w')" and "c \<in> set (calls w')"
  shows "c \<in> set (calls w) \<or> c = TtsToFile text spk tp \<or> c = TtsToFilePlain text tp \<or>
         c = LibrosaLoad tp"
  using assms
  by (auto simp: generate_and_load_def load_audio_def Let_def split: sum.splits exn.splits)

lemma apply_emotion_calls:
  assumes "apply_emotion E L gs sr a w = (r, w')" and "c \<in> set (calls w')"
  shows "c \<in> set (calls w) \<or> (\<exists>n. c = PitchShift a sr n) \<or> (\<exists>b k. c = TimeStretch b k)"
  using assms
  by (auto simp: chain_eval split: sum.splits if_splits prod.splits)

lemma cleanup_calls:
  assumes "c \<in> set (calls (cleanup E tp w))"
  shows "c \<in> set (calls w) \<or> c = OsRemove tp"
  using assms
  by (auto simp: cleanup_def Let_def split: sum.splits if_splits)

lemma write_output_calls:
  assumes "write_output E out buf sr w = (r, w')" and "c \<in> set (calls w')"
  shows "c \<in> set (calls w) \<or> (\<exists>sub. c = SfWrite out buf sr sub)"
  using assms
  by (auto simp: write_output_def call_sf_write_def Let_def split: sum.splits exn.splits prod.splits)

lemma np_clip_bounds:
  assumes "x \<in> set (np_clip xs (- 1) 1)"
  shows "- 1 \<le> x \<and> x \<le> 1"
  using assms by (auto simp: np_clip_def)

lemma create_sf_write:
  assumes "SfWrite path buf r sub \<in> set (calls (snd (create_emotional_tts E text L out spk tts gs w)))"
      and "SfWrite path buf r sub \<notin> set (calls w)"
  shows "\<exists>audio. buf = np_clip (map (float32 E) audio) (- 1) 1"
  using assms
  by (auto simp: create_emotional_tts_def Let_def
        split: sum.splits prod.splits option.splits
        dest!: generate_and_load_calls apply_emotion_calls cleanup_calls write_output_calls)


text \<open>
  Claim C3. Every buffer a run of \<open>create_emotional_tts\<close> passes to \<open>sf.write\<close>,
  whatever the waveform, the label and the speed, holds only samples in \<open>[-1, 1]\<close>,
  and it is the clipping to \<open>[-1, 1]\<close> of a buffer cast to float32. (The gains are the
  constants of the branches, all positive.)
\<close>

theorem written_buffer_clipped:
  assumes "SfWrite path buf r sub \<in>
             set (calls (snd (create_emotional_tts E text L out spk tts gs w)))"
      and "SfWrite path buf r sub \<notin> set (calls w)"
  shows "(\<forall>x \<in> set buf. - 1 \<le> x \<and> x \<le> 1) \<and>
         (\<exists>audio. buf = np_clip (map (float32 E) audio) (- 1) 1)"
proof -
  from create_sf_write [OF assms] obtain audio
    where b: "buf = np_clip (map (float32 E) audio) (- 1) 1" ..
  then have "\<forall>x \<in> set buf. - 1 \<le> x \<and> x \<le> 1"
    using np_clip_bounds by blast
  with b show ?thesis by blast
qed

theorem written_buffer_clipped_witness:
  "SfWrite ''out.wav'' [0.6, - 0.6, 1, 0] 2 True \<in>
     set (calls (snd (create_emotional_tts env_ok ''hi'' ''angry'' ''out.wav'' None None 1 world0))) \<and>
   SfWrite ''out.wav'' [0.6, - 0.6, 1, 0] 2 True \<notin> set (calls world0) \<and>
   list_all (\<lambda>x. - 1 \<le> x \<and> x \<le> 1) [0.6, - 0.6, 1, 0 :: real]"
proof -
  have l: "lower ''angry'' = ''angry''"
    by (simp add: str_eval)
  have h1: "SfWrite ''out.wav'' [0.6, - 0.6, 1, 0] 2 True \<in>
     set (calls (snd (create_emotional_tts env_ok ''hi'' ''angry'' ''out.wav'' None None 1 world0)))"
    by (simp add: run_eval chain_eval l env_ok_def world0_def)
  have h2: "SfWrite ''out.wav'' [0.6, - 0.6, 1, 0] 2 True \<notin> set (calls world0)"
    by (simp add: world0_def)
  show ?thesis
    using h1 h2 written_buffer_clipped [OF h1 h2] by (simp add: list_all_iff)
qed





section \<open>The fallback of the form\<close>

lemmas gui_eval = generate_thread_def call_create_def set_status_def showerror_def Let_def

text \<open>
  Claim C7. Where \<open>P\<close> is the call with the chosen model and \<open>F\<close> the call with
  \<open>tts_models/en/vctk/vits\<close>, child mode on and the same text, emotion, output path,
  speed, pitch shift and energy: if \<open>P\<close> returns, it is the only attempt; if \<open>P\<close>
  raises, the attempts are exactly \<open>P\<close> and then \<open>F\<close>; if \<open>F\<close> returns, no dialog is
  shown and the status line ends with the fallback's success; if \<open>F\<close> raises too, one
  error dialog shows the traceback of the first failure followed by that of the
  second. The button is enabled again in every case.
\<close>

theorem fallback_retried_once:
  "(let P = \<lparr>r_text = text, r_emotion = emotion, r_out = out, r_global_speed = gs,
              r_model_name = chosen_model model_name child_mode, r_child_mode = child_mode,
              r_pitch_shift = ps, r_energy = en, r_tremolo_rate = Some tr,
              r_tremolo_depth = Some td, r_reverb_amount = Some rv, r_brightness = Some br\<rparr>;
        F = \<lparr>r_text = text, r_emotion = emotion, r_out = out, r_global_speed = gs,
              r_model_name = ''tts_models/en/vctk/vits'', r_child_mode = True,
              r_pitch_shift = ps, r_energy = en, r_tremolo_rate = None,
              r_tremolo_depth = None, r_reverb_amount = None, r_brightness = None\<rparr>;
        g' = generate_thread G text emotion out model_name child_mode gs ps en tr td rv br g
    in (\<forall>p. create G P = Inr p \<longrightarrow> attempts g' = attempts g @ [P] \<and> dialogs g' = dialogs g) \<and>
       (\<forall>e1. create G P = Inl e1 \<longrightarrow>
          attempts g' = attempts g @ [P, F] \<and>
          (\<forall>p. create G F = Inr p \<longrightarrow>
             dialogs g' = dialogs g \<and>
             status g' = status g @ [''Starting generation...'',
               ''Initializing model: '' @ chosen_model model_name child_mode,
               ''Generation failed: falling back to vctk approximation...'',
               ''Done with fallback. Saved to '' @ out]) \<and>
          (\<forall>e2. create G F = Inl e2 \<longrightarrow>
             dialogs g' = dialogs g @
               [(''Generation failed'',
                 ''Errors:'' @ [CHR 0x0A] @ format_exc G e1 @ [CHR 0x0A] @ format_exc G e2)])) \<and>
       button_enabled g')"
  by (auto simp: gui_eval split: sum.splits)


theorem fallback_retried_once_witness:
  "attempts (generate_thread genv_all_fail ''hi'' ''happy'' ''out.wav'' None True 1 2 1 5 0 0 0 gui0) =
     [\<lparr>r_text = ''hi'', r_emotion = ''happy'', r_out = ''out.wav'', r_global_speed = 1,
       r_model_name = ''C3Imaging/child_tts_fastpitch'', r_child_mode = True,
       r_pitch_shift = 2, r_energy = 1, r_tremolo_rate = Some 5,
       r_tremolo_depth = Some 0, r_reverb_amount = Some 0, r_brightness = Some 0\<rparr>,
      \<lparr>r_text = ''hi'', r_emotion = ''happy'', r_out = ''out.wav'', r_global_speed = 1,
       r_model_name = ''tts_models/en/vctk/vits'', r_child_mode = True,
       r_pitch_shift = 2, r_energy = 1, r_tremolo_rate = None,
       r_tremolo_depth = None, r_reverb_amount = None, r_brightness = None\<rparr>] \<and>
   dialogs (generate_thread genv_all_fail ''hi'' ''happy'' ''out.wav'' None True 1 2 1 5 0 0 0 gui0) =
     [(''Generation failed'',
       ''Errors:'' @ [CHR 0x0A] @ ''cannot load C3Imaging/child_tts_fastpitch'' @ [CHR 0x0A] @
       ''cannot load tts_models/en/vctk/vits'')] \<and>
   dialogs (generate_thread genv_primary_fails ''hi'' ''happy'' ''out.wav'' None True 1 2 1 5 0 0 0 gui0) = [] \<and>
   length (attempts (generate_thread genv_primary_fails ''hi'' ''happy'' ''out.wav'' None True 1 2 1 5 0 0 0 gui0)) = 2"
proof -
  have c: "chosen_model None True = ''C3Imaging/child_tts_fastpitch''"
    by (simp add: chosen_model_def)
  show ?thesis
    using fallback_retried_once [of "''hi''" "''happy''" "''out.wav''" 1 None True 2 1 5 0 0 0
            genv_all_fail gui0]
      fallback_retried_once [of "''hi''" "''happy''" "''out.wav''" 1 None True 2 1 5 0 0 0
            genv_primary_fails gui0]
    by (simp add: c Let_def genv_all_fail_def genv_primary_fails_def gui0_def render_exn_def)
qed

section \<open>The speaker-gender table\<close>













end
